theory Spec2Isabelle
  imports Complex_Main "HOL-Library.Word"
begin

section \<open>The streaming ASR example program\<close>

text \<open>
  The repository's source is the command-line driver
  \<^verbatim>\<open>inference/inference/examples/SimpleStreamingASRExample.cpp\<close>: it loads the
  feature and acoustic modules, the token list and the decoder options, builds the
  decoder factory and hands an audio stream to \<^verbatim>\<open>audioStreamToWordsStream\<close>.
  This section embeds \<^verbatim>\<open>main\<close>. Exceptions are values of a sum type; the file
  system and standard input are an explicit world; the functions the driver calls but
  whose code lives elsewhere (\<^verbatim>\<open>GetFullPath\<close>, the cereal archives, the
  \<^verbatim>\<open>DecoderFactory\<close> constructor, \<^verbatim>\<open>audioStreamToWordsStream\<close>) are
  parameters, collected in a record. The \<^verbatim>\<open>TimeElapsedReporter\<close> objects
  (declared in \<^verbatim>\<open>Util.h\<close>, not among the sources) only report timings; they are
  left out, and whatever they write is not part of the output recorded here.
\<close>

subsection \<open>Command-line flags\<close>

text \<open>The nine \<^verbatim>\<open>DEFINE_string\<close> flags, and their default values.\<close>

record flags =
  input_files_base_path :: string
  feature_module_file :: string
  acoustic_module_file :: string
  tokens_file :: string
  lexicon_file :: string
  input_audio_file :: string
  silence_token :: string
  language_model_file :: string
  decoder_options_file :: string

definition defaultFlags :: flags where
  "defaultFlags =
     \<lparr> input_files_base_path = ''.'',
       feature_module_file = ''feature_extractor.bin'',
       acoustic_module_file = ''acoustic_model.bin'',
       tokens_file = ''tokens.txt'',
       lexicon_file = ''lexicon.txt'',
       input_audio_file = '''',
       silence_token = ''_'',
       language_model_file = ''language_model.bin'',
       decoder_options_file = ''decoder_options.json'' \<rparr>"

subsection \<open>The world the program runs in\<close>

text \<open>
  A file that can be opened for reading is a path with contents; \<^verbatim>\<open>is_open()\<close>
  is false exactly for the other paths. An input stream is either good, holding the
  bytes still to be read, or failed (an \<^verbatim>\<open>ifstream\<close> whose file could not be
  opened; every read from it fails).
\<close>

record world =
  files :: "string \<rightharpoonup> string"
  stdin :: string

datatype istream = GoodStream string | FailedStream

definition ifstream :: "world \<Rightarrow> string \<Rightarrow> istream" where
  "ifstream w path = (case files w path of None \<Rightarrow> FailedStream | Some bytes \<Rightarrow> GoodStream bytes)"

definition is_open :: "istream \<Rightarrow> bool" where
  "is_open s = (case s of GoodStream _ \<Rightarrow> True | FailedStream \<Rightarrow> False)"

text \<open>
  \<^verbatim>\<open>runtime_error\<close> is what \<^verbatim>\<open>main\<close> throws itself; \<^verbatim>\<open>Exception\<close> stands
  for whatever a called library throws.
\<close>

datatype error = runtime_error string | Exception string

subsection \<open>Decoder options and factory arguments\<close>

text \<open>
  \<^verbatim>\<open>DecoderOptions\<close>, \<^verbatim>\<open>SmearingMode\<close> and the constructor of
  \<^verbatim>\<open>DecoderFactory\<close> are declared in \<^verbatim>\<open>inference/decoder/Decoder.h\<close>, which is
  not among the sources. The record below has the ten members \<^verbatim>\<open>main\<close> loads;
  floating-point members are reals, and the criterion enum is carried as the integer
  cereal reads for it. The factory's argument record has one field per argument of the
  constructor call in \<^verbatim>\<open>main\<close>, in the order of the call.
\<close>

record decoderOptions =
  beamSize :: int
  beamSizeToken :: int
  beamThreshold :: real
  lmWeight :: real
  wordScore :: real
  unkScore :: real
  silScore :: real
  eosScore :: real
  logAdd :: bool
  criterionType :: int

datatype SmearingMode = SmearingMode_NONE | SmearingMode_MAX | SmearingMode_LOGADD

record factoryArgs =
  tokensPath :: string
  lexiconPath :: string
  languageModelPath :: string
  transitions :: "real list"
  smearingMode :: SmearingMode
  silenceToken :: string
  unkScoreOverride :: real

subsection \<open>Collaborators\<close>

text \<open>
  The code \<^verbatim>\<open>main\<close> calls and the sources do not contain. \<open>'m\<close> is a
  deserialised module, \<open>'j\<close> an opened JSON archive, \<open>'f\<close> a decoder factory.
  \<^verbatim>\<open>BinaryInputArchive\<close> stands for opening the archive on a stream and reading
  one module from it. Each
  of the four \<open>load\<close> functions stands for cereal reading one name-value pair of the
  given name from the archive; like the archive constructors and the factory
  constructor it may throw. \<^verbatim>\<open>audioStreamToWordsStream\<close> receives the input
  stream, the network, the factory (through a pointer to const), the options and the
  token count; it yields what it wrote to the output stream and the exception it ended
  with, if any.
\<close>

type_synonym int32 = "32 word"

record ('m, 'j, 'f) collaborators =
  GetFullPath :: "string \<Rightarrow> string \<Rightarrow> string"
  BinaryInputArchive :: "istream \<Rightarrow> error + 'm"
  JSONInputArchive :: "istream \<Rightarrow> error + 'j"
  loadInt :: "'j \<Rightarrow> string \<Rightarrow> error + int"
  loadDouble :: "'j \<Rightarrow> string \<Rightarrow> error + real"
  loadBool :: "'j \<Rightarrow> string \<Rightarrow> error + bool"
  loadEnum :: "'j \<Rightarrow> string \<Rightarrow> error + int"
  DecoderFactory :: "factoryArgs \<Rightarrow> error + 'f"
  audioStreamToWordsStream ::
    "istream \<Rightarrow> 'm list \<Rightarrow> 'f \<Rightarrow> decoderOptions \<Rightarrow> int32 \<Rightarrow> string \<times> error option"

definition GetInputFileFullPath :: "('m, 'j, 'f) collaborators \<Rightarrow> flags \<Rightarrow> string \<Rightarrow> string" where
  "GetInputFileFullPath env fl fileName = GetFullPath env fileName (input_files_base_path fl)"

subsection \<open>Reading the token list\<close>

text \<open>
  \<^verbatim>\<open>std::getline(tknFile, line)\<close> on the bytes still unread: it fails (and the
  loop stops) only when no character at all can be extracted; otherwise it yields the
  characters before the next newline, which it consumes, or all remaining characters
  when there is no newline.
\<close>

fun getline :: "string \<Rightarrow> (string \<times> string) option" where
  "getline [] = None"
| "getline (c # cs) =
     (if c = CHR 0x0A then Some ([], cs)
      else (case getline cs of
              None \<Rightarrow> Some ([c], [])
            | Some (line, rest) \<Rightarrow> Some (c # line, rest)))"

lemma getline_shorter: "getline s = Some (line, rest) \<Longrightarrow> length rest < length s"
  by (induction s arbitrary: line rest) (auto split: if_splits option.splits)

text \<open>The loop \<^verbatim>\<open>while (std::getline(tknFile, line)) tokens.push_back(line);\<close>\<close>

function readLines :: "string \<Rightarrow> string list \<Rightarrow> string list" where
  "readLines s tokens =
     (case getline s of
        None \<Rightarrow> tokens
      | Some (line, rest) \<Rightarrow> readLines rest (tokens @ [line]))"
  by pat_completeness auto
termination
  by (relation "measure (\<lambda>(s, tokens). length s)") (auto dest: getline_shorter)

declare readLines.simps [simp del]

definition readTokens :: "istream \<Rightarrow> string list" where
  "readTokens tknFile =
     (case tknFile of GoodStream bytes \<Rightarrow> readLines bytes [] | FailedStream \<Rightarrow> [])"

subsection \<open>Printing an int\<close>

definition digitChar :: "nat \<Rightarrow> char" where
  "digitChar d = ''0123456789'' ! d"

fun showNat :: "nat \<Rightarrow> string" where
  "showNat n = (if n < 10 then [digitChar n] else showNat (n div 10) @ [digitChar (n mod 10)])"

declare showNat.simps [simp del]

definition showInt :: "int \<Rightarrow> string" where
  "showInt i = (if i < 0 then CHR ''-'' # showNat (nat (- i)) else showNat (nat i))"

definition endl :: string where
  "endl = [CHR 0x0A]"

subsection \<open>The stages of main\<close>

text \<open>Lines 119-130: the feature module.\<close>

definition loadFeatureModule :: "('m, 'j, 'f) collaborators \<Rightarrow> flags \<Rightarrow> world \<Rightarrow> error + 'm" where
  "loadFeatureModule env fl w =
     (let featFile = ifstream w (GetInputFileFullPath env fl (feature_module_file fl)) in
      if \<not> is_open featFile then
        Inl (runtime_error (''failed to open feature file='' @
               GetInputFileFullPath env fl (feature_module_file fl) @ '' for reading''))
      else BinaryInputArchive env featFile)"

text \<open>
  Lines 132-143: the acoustic module. The stream is opened on the acoustic module's
  path; the message of the exception is built from \<^verbatim>\<open>FLAGS_feature_module_file\<close>,
  as line 139 has it.
\<close>

definition loadAcousticModule :: "('m, 'j, 'f) collaborators \<Rightarrow> flags \<Rightarrow> world \<Rightarrow> error + 'm" where
  "loadAcousticModule env fl w =
     (let amFile = ifstream w (GetInputFileFullPath env fl (acoustic_module_file fl)) in
      if \<not> is_open amFile then
        Inl (runtime_error (''failed to open acoustic model file='' @
               GetInputFileFullPath env fl (feature_module_file fl) @ '' for reading''))
      else BinaryInputArchive env amFile)"

text \<open>Lines 146-148: a \<^verbatim>\<open>Sequential\<close> is the list of its children; \<^verbatim>\<open>add\<close> appends.\<close>

definition add :: "'m list \<Rightarrow> 'm \<Rightarrow> 'm list" where
  "add dnnModule m = dnnModule @ [m]"

text \<open>Lines 150-163: the tokens.\<close>

definition loadTokens :: "('m, 'j, 'f) collaborators \<Rightarrow> flags \<Rightarrow> world \<Rightarrow> error + string list" where
  "loadTokens env fl w =
     (let tknFile = ifstream w (GetInputFileFullPath env fl (tokens_file fl)) in
      if \<not> is_open tknFile then
        Inl (runtime_error (''failed to open tokens file='' @
               GetInputFileFullPath env fl (tokens_file fl) @ '' for reading''))
      else Inr (readTokens tknFile))"

text \<open>
  Line 164, \<^verbatim>\<open>int nTokens = tokens.size();\<close>: the size is narrowed to a 32-bit
  int, which keeps its low 32 bits.
\<close>

definition tokenCount :: "string list \<Rightarrow> int32" where
  "tokenCount tokens = of_nat (length tokens)"

text \<open>
  Lines 167-190: the decoder options. One archive call loads the ten name-value pairs
  in the order written; the first one that throws ends the load.
\<close>

definition loadDecoderOptions ::
  "('m, 'j, 'f) collaborators \<Rightarrow> flags \<Rightarrow> world \<Rightarrow> error + decoderOptions" where
  "loadDecoderOptions env fl w =
     (let decoderOptionsFile = ifstream w (GetInputFileFullPath env fl (decoder_options_file fl)) in
      if \<not> is_open decoderOptionsFile then
        Inl (runtime_error (''failed to open decoder options file='' @
               GetInputFileFullPath env fl (decoder_options_file fl) @ '' for reading''))
      else
        (case JSONInputArchive env decoderOptionsFile of Inl e \<Rightarrow> Inl e | Inr ar \<Rightarrow>
        (case loadInt env ar ''beamSize'' of Inl e \<Rightarrow> Inl e | Inr v1 \<Rightarrow>
        (case loadInt env ar ''beamSizeToken'' of Inl e \<Rightarrow> Inl e | Inr v2 \<Rightarrow>
        (case loadDouble env ar ''beamThreshold'' of Inl e \<Rightarrow> Inl e | Inr v3 \<Rightarrow>
        (case loadDouble env ar ''lmWeight'' of Inl e \<Rightarrow> Inl e | Inr v4 \<Rightarrow>
        (case loadDouble env ar ''wordScore'' of Inl e \<Rightarrow> Inl e | Inr v5 \<Rightarrow>
        (case loadDouble env ar ''unkScore'' of Inl e \<Rightarrow> Inl e | Inr v6 \<Rightarrow>
        (case loadDouble env ar ''silScore'' of Inl e \<Rightarrow> Inl e | Inr v7 \<Rightarrow>
        (case loadDouble env ar ''eosScore'' of Inl e \<Rightarrow> Inl e | Inr v8 \<Rightarrow>
        (case loadBool env ar ''logAdd'' of Inl e \<Rightarrow> Inl e | Inr v9 \<Rightarrow>
        (case loadEnum env ar ''criterionType'' of Inl e \<Rightarrow> Inl e | Inr v10 \<Rightarrow>
          Inr \<lparr> beamSize = v1, beamSizeToken = v2, beamThreshold = v3, lmWeight = v4,
                wordScore = v5, unkScore = v6, silScore = v7, eosScore = v8,
                logAdd = v9, criterionType = v10 \<rparr>))))))))))))"

text \<open>Lines 192-205: the arguments of the one constructor call.\<close>

definition decoderFactoryArgs :: "('m, 'j, 'f) collaborators \<Rightarrow> flags \<Rightarrow> factoryArgs" where
  "decoderFactoryArgs env fl =
     \<lparr> tokensPath = GetInputFileFullPath env fl (tokens_file fl),
       lexiconPath = GetInputFileFullPath env fl (lexicon_file fl),
       languageModelPath = GetInputFileFullPath env fl (language_model_file fl),
       transitions = [],
       smearingMode = SmearingMode_MAX,
       silenceToken = silence_token fl,
       unkScoreOverride = 0 \<rparr>"

text \<open>
  Lines 207-231: standard input when the flag is empty, else a stream opened on the
  named file; that stream is not tested with \<^verbatim>\<open>is_open\<close>.
\<close>

definition audioInput :: "('m, 'j, 'f) collaborators \<Rightarrow> flags \<Rightarrow> world \<Rightarrow> istream" where
  "audioInput env fl w =
     (if input_audio_file fl = [] then GoodStream (stdin w)
      else ifstream w (GetInputFileFullPath env fl (input_audio_file fl)))"

subsection \<open>main\<close>

text \<open>
  What a run leaves behind: the text that \<^verbatim>\<open>main\<close> itself and
  \<^verbatim>\<open>audioStreamToWordsStream\<close> write to standard output, the calls made to the
  factory constructor and to \<^verbatim>\<open>audioStreamToWordsStream\<close>, in order, and either
  the exception that ended the run or the value returned.
\<close>

datatype ('m, 'f) call =
  NewDecoderFactory factoryArgs
| AudioStreamToWordsStream istream "'m list" 'f decoderOptions int32

record ('m, 'f) outcome =
  cout :: string
  calls :: "('m, 'f) call list"
  returned :: "error + int"

definition main :: "('m, 'j, 'f) collaborators \<Rightarrow> flags \<Rightarrow> world \<Rightarrow> ('m, 'f) outcome" where
  "main env fl w =
     (case loadFeatureModule env fl w of
        Inl e \<Rightarrow> \<lparr> cout = [], calls = [], returned = Inl e \<rparr>
      | Inr featureModule \<Rightarrow>
     (case loadAcousticModule env fl w of
        Inl e \<Rightarrow> \<lparr> cout = [], calls = [], returned = Inl e \<rparr>
      | Inr acousticModule \<Rightarrow>
     (let dnnModule = add (add [] featureModule) acousticModule in
      case loadTokens env fl w of
        Inl e \<Rightarrow> \<lparr> cout = [], calls = [], returned = Inl e \<rparr>
      | Inr tokens \<Rightarrow>
     (let nTokens = tokenCount tokens;
          out = ''Tokens loaded - '' @ showInt (sint nTokens) @ '' tokens'' @ endl in
      case loadDecoderOptions env fl w of
        Inl e \<Rightarrow> \<lparr> cout = out, calls = [], returned = Inl e \<rparr>
      | Inr decoderOptions \<Rightarrow>
     (let args = decoderFactoryArgs env fl in
      case DecoderFactory env args of
        Inl e \<Rightarrow> \<lparr> cout = out, calls = [NewDecoderFactory args], returned = Inl e \<rparr>
      | Inr decoderFactory \<Rightarrow>
     (let input = audioInput env fl w;
          (words, thrown) =
             audioStreamToWordsStream env input dnnModule decoderFactory decoderOptions nTokens in
      \<lparr> cout = out @ words,
        calls = [NewDecoderFactory args,
                 AudioStreamToWordsStream input dnnModule decoderFactory decoderOptions nTokens],
        returned = (case thrown of None \<Rightarrow> Inr 0 | Some e \<Rightarrow> Inl e) \<rparr>))))))"

subsection \<open>Lines of a text file\<close>



subsection \<open>Reading a run\<close>

definition constructorCalls :: "('m, 'f) call list \<Rightarrow> factoryArgs list" where
  "constructorCalls cs =
     concat (map (\<lambda>c. case c of NewDecoderFactory args \<Rightarrow> [args] | _ \<Rightarrow> []) cs)"


text \<open>Whether a message contains a path, as a run of consecutive characters.\<close>

fun names :: "string \<Rightarrow> string \<Rightarrow> bool" where
  "names [] path = (path = [])"
| "names (c # cs) path = (take (length path) (c # cs) = path \<or> names cs path)"

subsection \<open>A concrete installation\<close>

text \<open>
  One choice of the collaborators, for running \<^verbatim>\<open>main\<close> on concrete inputs. The
  path function does what the help text of \<^verbatim>\<open>--input_files_base_path\<close> says: the
  base path is put in front of a file name unless that is a full path. A module is the
  bytes of its file, a factory its constructor's arguments, the JSON archive a fixed
  list of name-value pairs, and the transcription echoes its input.
\<close>

definition exampleFullPath :: "string \<Rightarrow> string \<Rightarrow> string" where
  "exampleFullPath fileName path =
     (if fileName \<noteq> [] \<and> hd fileName = CHR ''/'' then fileName else path @ ''/'' @ fileName)"

definition exampleBinaryArchive :: "istream \<Rightarrow> error + string" where
  "exampleBinaryArchive s =
     (case s of GoodStream bytes \<Rightarrow> Inr bytes | FailedStream \<Rightarrow> Inl (Exception ''cereal''))"

definition exampleJSONArchive :: "istream \<Rightarrow> error + (string \<times> int) list" where
  "exampleJSONArchive s =
     (case s of
        GoodStream bytes \<Rightarrow>
          Inr [(''beamSize'', 10), (''beamSizeToken'', 5), (''beamThreshold'', 25),
               (''lmWeight'', 2), (''wordScore'', 1), (''unkScore'', - 7),
               (''silScore'', 0), (''eosScore'', 0), (''logAdd'', 0), (''criterionType'', 1)]
      | FailedStream \<Rightarrow> Inl (Exception ''cereal''))"

definition exampleLoad :: "(string \<times> int) list \<Rightarrow> string \<Rightarrow> error + int" where
  "exampleLoad ar name =
     (case map_of ar name of None \<Rightarrow> Inl (Exception name) | Some v \<Rightarrow> Inr v)"

definition exampleTranscribe ::
  "istream \<Rightarrow> string list \<Rightarrow> factoryArgs \<Rightarrow> decoderOptions \<Rightarrow> int32 \<Rightarrow> string \<times> error option" where
  "exampleTranscribe input dnn factory opts n =
     (case input of GoodStream bytes \<Rightarrow> (bytes, None) | FailedStream \<Rightarrow> ([], None))"

definition exampleEnv :: "(string, (string \<times> int) list, factoryArgs) collaborators" where
  "exampleEnv =
     \<lparr> GetFullPath = exampleFullPath,
       BinaryInputArchive = exampleBinaryArchive,
       JSONInputArchive = exampleJSONArchive,
       loadInt = exampleLoad,
       loadDouble = (\<lambda>ar name. map_sum id real_of_int (exampleLoad ar name)),
       loadBool = (\<lambda>ar name. map_sum id (\<lambda>v. v \<noteq> 0) (exampleLoad ar name)),
       loadEnum = exampleLoad,
       DecoderFactory = Inr,
       audioStreamToWordsStream = exampleTranscribe \<rparr>"

definition exampleFiles :: "string \<rightharpoonup> string" where
  "exampleFiles =
     [''./feature_extractor.bin'' \<mapsto> ''F'',
      ''./acoustic_model.bin'' \<mapsto> ''A'',
      ''./tokens.txt'' \<mapsto> ''a'' @ endl @ ''b'' @ endl @ ''_'' @ endl,
      ''./decoder_options.json'' \<mapsto> ''{}'',
      ''./audio.wav'' \<mapsto> ''RIFF'']"

definition exampleWorld :: world where
  "exampleWorld = \<lparr> files = exampleFiles, stdin = ''RIFF'' \<rparr>"

definition exampleArgs :: factoryArgs where
  "exampleArgs =
     \<lparr> tokensPath = ''./tokens.txt'', lexiconPath = ''./lexicon.txt'',
       languageModelPath = ''./language_model.bin'', transitions = [],
       smearingMode = SmearingMode_MAX, silenceToken = ''_'', unkScoreOverride = 0 \<rparr>"

definition exampleOptions :: decoderOptions where
  "exampleOptions =
     \<lparr> beamSize = 10, beamSizeToken = 5, beamThreshold = 25, lmWeight = 2, wordScore = 1,
       unkScore = - 7, silScore = 0, eosScore = 0, logAdd = False, criterionType = 1 \<rparr>"

text \<open>The same installation without the acoustic model file.\<close>

definition noAcousticWorld :: world where
  "noAcousticWorld = \<lparr> files = exampleFiles(''./acoustic_model.bin'' := None), stdin = ''RIFF'' \<rparr>"


section \<open>The decoder and the streaming pipeline, from the specification\<close>

text \<open>
  The beam-search decoder (\<^verbatim>\<open>inference/decoder/Decoder.h\<close>) and the streaming
  loop (\<^verbatim>\<open>inference/examples/AudioToWords.h\<close>) are included by the driver, but
  their code is not among the sources. The definitions of this section are written from
  the specification (sections 3, 4.3, 4.4, 5 and 9). What it leaves open is a parameter:
  the lexicon trie and the language model are types \<open>'t\<close> (trie positions) and \<open>'l\<close>
  (language-model states), a factory is a type \<open>'f\<close>, and the generation of candidate
  extensions from a hypothesis and an emission, whose arithmetic the specification does
  not give, is a function. Scores are reals.
\<close>

subsection \<open>Hypotheses and merging\<close>

text \<open>
  Modelled from the spec: the Hypothesis of section 3 (the decoder's own type is not in
  the sources): accumulated log-score, trie position, language-model state and
  backpointer to the parent, an index into the arena of section 9. \<open>word\<close> is the
  word the extension closed, if any; it is what makes the word sequence recoverable
  from the chain of backpointers.
\<close>

record ('t, 'l) hypothesis =
  score :: real
  triePos :: 't
  lmState :: 'l
  parent :: "nat option"
  word :: "string option"

text \<open>
  Modelled from the spec: the merge policy of \<^verbatim>\<open>decodeChunk\<close> in section 4.3 (the
  decoder is not in the sources), "if logAdd is set, merge by numerically-stable
  log-sum-exp of scores; otherwise keep the maximum". The stable form takes the larger
  score out of the sum, so that the exponential is of a number that is not positive.
\<close>

definition mergeScores :: "bool \<Rightarrow> real \<Rightarrow> real \<Rightarrow> real" where
  "mergeScores la a b =
     (if la then max a b + ln (1 + exp (min a b - max a b)) else max a b)"

text \<open>
  Modelled from the spec: two candidates are the same search state when they have
  "identical resulting (trie position, LM state)" (section 4.3; the decoder is not in
  the sources).
\<close>

definition sameState :: "('t, 'l) hypothesis \<Rightarrow> ('t, 'l) hypothesis \<Rightarrow> bool" where
  "sameState h c \<longleftrightarrow> triePos h = triePos c \<and> lmState h = lmState c"

text \<open>
  Modelled from the spec: merging a later candidate into an earlier hypothesis of the
  same state (section 4.3; the decoder is not in the sources). The merged hypothesis
  keeps the history of the better of the two, the earlier one on a tie ("earlier-created
  hypothesis wins"), and carries the merged score.
\<close>

definition mergeStates ::
  "bool \<Rightarrow> ('t, 'l) hypothesis \<Rightarrow> ('t, 'l) hypothesis \<Rightarrow> ('t, 'l) hypothesis" where
  "mergeStates la h c =
     (if score h < score c then c else h) \<lparr> score := mergeScores la (score h) (score c) \<rparr>"

text \<open>
  Modelled from the spec: "candidates with identical resulting (trie position, LM
  state) are merged" (section 4.3; the decoder is not in the sources). Candidates are
  taken in the order of their creation; each is merged into the hypothesis of its state
  when there is one, and is kept as a new hypothesis otherwise.
\<close>

fun mergeInto ::
  "bool \<Rightarrow> ('t, 'l) hypothesis \<Rightarrow> ('t, 'l) hypothesis list \<Rightarrow> ('t, 'l) hypothesis list" where
  "mergeInto la c [] = [c]"
| "mergeInto la c (h # hs) =
     (if sameState h c then mergeStates la h c # hs else h # mergeInto la c hs)"

definition mergeCandidates ::
  "bool \<Rightarrow> ('t, 'l) hypothesis list \<Rightarrow> ('t, 'l) hypothesis list" where
  "mergeCandidates la cs = foldl (\<lambda>merged c. mergeInto la c merged) [] cs"

subsection \<open>Pruning\<close>

text \<open>
  Modelled from the spec: ranking by score with the "deterministic tie-break:
  earlier-created hypothesis wins" (section 4.3; the decoder is not in the sources):
  a stable sort by descending score of a list in creation order.
\<close>

definition rank :: "('t, 'l) hypothesis list \<Rightarrow> ('t, 'l) hypothesis list" where
  "rank hs = sort_key (\<lambda>h. - score h) hs"

text \<open>
  Modelled from the spec: "retain at most beamSizeToken extensions per parent"
  (section 4.3; the decoder is not in the sources). \<open>parents\<close> are the arena indices
  of the surviving hypotheses that were extended.
\<close>

definition retainPerParent ::
  "int \<Rightarrow> nat list \<Rightarrow> ('t, 'l) hypothesis list \<Rightarrow> ('t, 'l) hypothesis list" where
  "retainPerParent fanout parents cs =
     concat (map (\<lambda>p. take (nat fanout) (rank (filter (\<lambda>c. parent c = Some p) cs))) parents)"

text \<open>
  Modelled from the spec: "globally rank all surviving hypotheses and keep the top
  beamSize, discarding any whose score is below bestScore - beamThreshold"
  (section 4.3; the decoder is not in the sources).
\<close>

definition pruneBeam ::
  "decoderOptions \<Rightarrow> ('t, 'l) hypothesis list \<Rightarrow> ('t, 'l) hypothesis list" where
  "pruneBeam opts cs =
     (case take (nat (beamSize opts)) (rank cs) of
        [] \<Rightarrow> []
      | best # others \<Rightarrow>
          filter (\<lambda>h. score best - beamThreshold opts \<le> score h) (best # others))"

subsection \<open>A decoding session\<close>

text \<open>
  Modelled from the spec: the states of the decoder, "Idle, Decoding, Finalized
  (terminal)" (section 4.3; the decoder is not in the sources).
\<close>

datatype phase = Idle | Decoding | Finalized

text \<open>
  Modelled from the spec: the error of section 7 for an "operation invoked out of state
  order" (the decoder is not in the sources).
\<close>

datatype decodeError = DecodeStateError

text \<open>
  Modelled from the spec: the private state of one session (sections 5 and 9; the
  decoder is not in the sources): its state, the arena of hypotheses in the order of
  their creation, and the beam, the arena indices of the live hypotheses.
\<close>

record ('t, 'l) session =
  phase :: phase
  arena :: "('t, 'l) hypothesis list"
  beam :: "nat list"

text \<open>
  Modelled from the spec: what a decoding session reads from the frozen factory
  (sections 3 and 6; \<^verbatim>\<open>DecoderFactory\<close>, lexicon and language model are not in the
  sources): the root of the lexicon trie, the initial state of the language model, and
  the candidate extensions of a hypothesis for one emission ("continue within the
  current word along the trie" or "close the current word and start a new one", scored
  with the options). The three are parameters; an extension is given by its score, trie
  position, language-model state and closed word.
\<close>

record ('f, 't, 'l) lookups =
  trieRoot :: "'f \<Rightarrow> 't"
  initialState :: "'f \<Rightarrow> 'l"
  extensions ::
    "'f \<Rightarrow> decoderOptions \<Rightarrow> real list \<Rightarrow> ('t, 'l) hypothesis
       \<Rightarrow> (real \<times> 't \<times> 'l \<times> string option) list"

text \<open>
  Modelled from the spec: the "single empty root" hypothesis, "score 0, LM initial
  state, trie root" (sections 3 and 4.3; the decoder is not in the sources).
\<close>

definition emptyHypothesis :: "('f, 't, 'l) lookups \<Rightarrow> 'f \<Rightarrow> ('t, 'l) hypothesis" where
  "emptyHypothesis lk fac =
     \<lparr> score = 0, triePos = trieRoot lk fac, lmState = initialState lk fac,
       parent = None, word = None \<rparr>"

text \<open>
  Modelled from the spec: a session before \<^verbatim>\<open>start()\<close> (section 4.3; the decoder
  is not in the sources).
\<close>

definition newSession :: "('t, 'l) session" where
  "newSession = \<lparr> phase = Idle, arena = [], beam = [] \<rparr>"

text \<open>
  Modelled from the spec: \<^verbatim>\<open>start()\<close>, "Idle to Decoding; beam initialized to one
  hypothesis" (section 4.3; the decoder is not in the sources). In any other state the
  call is out of order.
\<close>

definition start ::
  "('f, 't, 'l) lookups \<Rightarrow> 'f \<Rightarrow> ('t, 'l) session \<Rightarrow> decodeError + ('t, 'l) session" where
  "start lk fac s =
     (if phase s = Idle
      then Inr \<lparr> phase = Decoding, arena = [emptyHypothesis lk fac], beam = [0] \<rparr>
      else Inl DecodeStateError)"

text \<open>
  Modelled from the spec: the candidates of one timestep (section 4.3; the decoder is
  not in the sources): the extensions of every surviving hypothesis, in beam order,
  each with a backpointer to the hypothesis it extends.
\<close>

definition candidates ::
  "('f, 't, 'l) lookups \<Rightarrow> 'f \<Rightarrow> decoderOptions \<Rightarrow> ('t, 'l) session \<Rightarrow> real list
     \<Rightarrow> ('t, 'l) hypothesis list" where
  "candidates lk fac opts s emission =
     concat (map (\<lambda>i. map (\<lambda>(sc, pos, st, w).
                            \<lparr> score = sc, triePos = pos, lmState = st,
                              parent = Some i, word = w \<rparr>)
                      (extensions lk fac opts emission (arena s ! i)))
                 (filter (\<lambda>i. i < length (arena s)) (beam s)))"

text \<open>
  Modelled from the spec: one timestep of \<^verbatim>\<open>decodeChunk\<close> (section 4.3; the
  decoder is not in the sources): generate, merge, retain per parent, prune; "if
  pruning empties the beam entirely for a timestep, the decoder reseeds with a fresh
  empty hypothesis". The survivors are appended to the arena and become the beam.
\<close>

definition decodeStep ::
  "('f, 't, 'l) lookups \<Rightarrow> 'f \<Rightarrow> decoderOptions \<Rightarrow> ('t, 'l) session \<Rightarrow> real list
     \<Rightarrow> ('t, 'l) session" where
  "decodeStep lk fac opts s emission =
     (let merged = mergeCandidates (logAdd opts) (candidates lk fac opts s emission);
          retained = retainPerParent (beamSizeToken opts) (beam s) merged;
          pruned = pruneBeam opts retained;
          survivors = (if pruned = [] then [emptyHypothesis lk fac] else pruned)
      in s \<lparr> arena := arena s @ survivors,
             beam := [length (arena s) ..< length (arena s) + length survivors] \<rparr>)"

text \<open>
  Modelled from the spec: \<^verbatim>\<open>decodeChunk(emissions)\<close> (section 4.3; the decoder is
  not in the sources): one step per timestep, in order; the session stays in Decoding.
  Outside Decoding the call fails with a DecodeStateError.
\<close>

definition decodeChunk ::
  "('f, 't, 'l) lookups \<Rightarrow> 'f \<Rightarrow> decoderOptions \<Rightarrow> ('t, 'l) session \<Rightarrow> real list list
     \<Rightarrow> decodeError + ('t, 'l) session" where
  "decodeChunk lk fac opts s emissions =
     (if phase s = Decoding then Inr (foldl (decodeStep lk fac opts) s emissions)
      else Inl DecodeStateError)"

text \<open>
  Modelled from the spec: the best-scoring live hypothesis, the earlier-created one on
  a tie (section 4.3; the decoder is not in the sources), as an arena index.
\<close>

fun bestOf :: "('t, 'l) hypothesis list \<Rightarrow> nat list \<Rightarrow> nat option \<Rightarrow> nat option" where
  "bestOf ar [] b = b"
| "bestOf ar (i # is) b =
     (if i < length ar \<and> (case b of None \<Rightarrow> True | Some j \<Rightarrow> score (ar ! j) < score (ar ! i))
      then bestOf ar is (Some i) else bestOf ar is b)"

text \<open>
  Modelled from the spec: history reconstruction, walking "the backpointer chain"
  (sections 3 and 4.3; the decoder is not in the sources). A backpointer is followed
  only when it points to an earlier hypothesis of the arena.
\<close>

function history :: "('t, 'l) hypothesis list \<Rightarrow> nat \<Rightarrow> string list" where
  "history ar i =
     (if i < length ar then
        (case parent (ar ! i) of
           None \<Rightarrow> []
         | Some p \<Rightarrow> if p < i then history ar p else [])
        @ (case word (ar ! i) of None \<Rightarrow> [] | Some w \<Rightarrow> [w])
      else [])"
  by pat_completeness auto
termination
  by (relation "measure (\<lambda>(ar, i). i)") auto

declare history.simps [simp del]

text \<open>
  Modelled from the spec: \<^verbatim>\<open>currentBestTranscript()\<close>, "non-destructive; walks the
  backpointer chain of the best-scoring live hypothesis" (section 4.3; the decoder is
  not in the sources).
\<close>

definition currentBestTranscript :: "('t, 'l) session \<Rightarrow> string list" where
  "currentBestTranscript s =
     (case bestOf (arena s) (beam s) None of None \<Rightarrow> [] | Some i \<Rightarrow> history (arena s) i)"

text \<open>
  Modelled from the spec: \<^verbatim>\<open>finish()\<close>, "Decoding to Finalized; applies eosScore
  to hypotheses ending at a word/silence boundary, selects the best, returns the final
  transcript" (section 4.3; the decoder is not in the sources). A hypothesis ends at a
  boundary when it stands at the root of the trie. Outside Decoding the call fails with
  a DecodeStateError.
\<close>

definition finish ::
  "('f, 't, 'l) lookups \<Rightarrow> 'f \<Rightarrow> decoderOptions \<Rightarrow> ('t, 'l) session
     \<Rightarrow> decodeError + (('t, 'l) session \<times> string list)" where
  "finish lk fac opts s =
     (if phase s = Decoding then
        (let live = set (beam s);
             ar = map (\<lambda>(i, h). if i \<in> live \<and> triePos h = trieRoot lk fac
                                  then h \<lparr> score := score h + eosScore opts \<rparr> else h)
                      (zip [0 ..< length (arena s)] (arena s));
             s' = s \<lparr> phase := Finalized, arena := ar \<rparr>
         in Inr (s', currentBestTranscript s'))
      else Inl DecodeStateError)"

subsection \<open>The streaming pipeline\<close>

text \<open>
  Modelled from the spec: the InferenceModule of section 6 (an external collaborator;
  its code is not in the sources): \<^verbatim>\<open>process(chunkSamples)\<close> yields emissions and
  keeps its own recurrent state \<open>'i\<close> across calls, \<^verbatim>\<open>flush()\<close> yields the
  emissions still buffered at the end of the stream. \<open>'a\<close> is an audio chunk.
\<close>

record ('i, 'a) inferenceModule =
  process :: "'i \<Rightarrow> 'a \<Rightarrow> 'i \<times> real list list"
  flush :: "'i \<Rightarrow> real list list"

text \<open>
  Modelled from the spec: the record \<^verbatim>\<open>{startMs, endMs, text}\<close> produced to the
  surrounding tooling (section 6; \<^verbatim>\<open>audioStreamToWordsStream\<close> is not in the
  sources).
\<close>

record outputRecord =
  startMs :: int
  endMs :: int
  spanText :: string

text \<open>
  Modelled from the spec: what the pipeline carries from window to window (sections 4.4
  and 5; \<^verbatim>\<open>audioStreamToWordsStream\<close> is not in the sources): the inference
  state, the decoding session, the transcript emitted so far and the number of windows
  processed.
\<close>

record ('i, 't, 'l) pipelineState =
  inference :: 'i
  decoder :: "('t, 'l) session"
  emitted :: "string list"
  elapsed :: nat

text \<open>
  Modelled from the spec: the text of a span, its words separated by blanks (the example
  output of the driver prints them so; \<^verbatim>\<open>audioStreamToWordsStream\<close> is not in the
  sources).
\<close>

fun unwords :: "string list \<Rightarrow> string" where
  "unwords [] = []"
| "unwords [w] = w"
| "unwords (w # ws) = w @ '' '' @ unwords ws"

text \<open>
  Modelled from the spec: the "diff against the transcript previously emitted", which
  leaves "only the newly confirmed span" (section 4.4; \<^verbatim>\<open>audioStreamToWordsStream\<close>
  is not in the sources): the words of the current transcript after those emitted.
\<close>

definition newSpan :: "string list \<Rightarrow> string list \<Rightarrow> string list" where
  "newSpan previous current = drop (length previous) current"

text \<open>
  Modelled from the spec: one window (section 4.4; \<^verbatim>\<open>audioStreamToWordsStream\<close> is
  not in the sources): forward the chunk to the InferenceModule, \<^verbatim>\<open>decodeChunk\<close>,
  \<^verbatim>\<open>currentBestTranscript()\<close>, diff, and the record of the window; \<open>d\<close> is the
  duration of a window in milliseconds.
\<close>

definition processWindow ::
  "('f, 't, 'l) lookups \<Rightarrow> 'f \<Rightarrow> decoderOptions \<Rightarrow> ('i, 'a) inferenceModule \<Rightarrow> int
     \<Rightarrow> ('i, 't, 'l) pipelineState \<Rightarrow> 'a
     \<Rightarrow> decodeError + (('i, 't, 'l) pipelineState \<times> outputRecord)" where
  "processWindow lk fac opts im d st chunk =
     (let (i', emissions) = process im (inference st) chunk in
      case decodeChunk lk fac opts (decoder st) emissions of
        Inl e \<Rightarrow> Inl e
      | Inr s' \<Rightarrow>
          (let transcript = currentBestTranscript s' in
           Inr (\<lparr> inference = i', decoder = s', emitted = transcript,
                  elapsed = Suc (elapsed st) \<rparr>,
                \<lparr> startMs = int (elapsed st) * d, endMs = (int (elapsed st) + 1) * d,
                  spanText = unwords (newSpan (emitted st) transcript) \<rparr>)))"

text \<open>
  Modelled from the spec: the windows of a stream, strictly in order (sections 4.4 and
  5; \<^verbatim>\<open>audioStreamToWordsStream\<close> is not in the sources).
\<close>

fun processWindows ::
  "('f, 't, 'l) lookups \<Rightarrow> 'f \<Rightarrow> decoderOptions \<Rightarrow> ('i, 'a) inferenceModule \<Rightarrow> int
     \<Rightarrow> ('i, 't, 'l) pipelineState \<Rightarrow> 'a list
     \<Rightarrow> decodeError + (('i, 't, 'l) pipelineState \<times> outputRecord list)" where
  "processWindows lk fac opts im d st [] = Inr (st, [])"
| "processWindows lk fac opts im d st (chunk # chunks) =
     (case processWindow lk fac opts im d st chunk of
        Inl e \<Rightarrow> Inl e
      | Inr (st', r) \<Rightarrow>
          (case processWindows lk fac opts im d st' chunks of
             Inl e \<Rightarrow> Inl e
           | Inr (st'', rs) \<Rightarrow> Inr (st'', r # rs)))"

text \<open>
  Modelled from the spec: the end of the input (section 4.4;
  \<^verbatim>\<open>audioStreamToWordsStream\<close> is not in the sources): "call InferenceModule's flush
  to drain buffered latency, then finish(), then emit the final span". The drained
  emissions are decoded before \<^verbatim>\<open>finish()\<close>. The specification gives the
  terminating record no times; it is stamped with the end of the last window.
\<close>

definition endOfInput ::
  "('f, 't, 'l) lookups \<Rightarrow> 'f \<Rightarrow> decoderOptions \<Rightarrow> ('i, 'a) inferenceModule \<Rightarrow> int
     \<Rightarrow> ('i, 't, 'l) pipelineState \<Rightarrow> decodeError + outputRecord" where
  "endOfInput lk fac opts im d st =
     (case decodeChunk lk fac opts (decoder st) (flush im (inference st)) of
        Inl e \<Rightarrow> Inl e
      | Inr s' \<Rightarrow>
          (case finish lk fac opts s' of
             Inl e \<Rightarrow> Inl e
           | Inr (s'', transcript) \<Rightarrow>
               Inr \<lparr> startMs = int (elapsed st) * d, endMs = int (elapsed st) * d,
                     spanText = unwords (newSpan (emitted st) transcript) \<rparr>))"

text \<open>
  Modelled from the spec: the StreamingPipeline of section 4.4
  (\<^verbatim>\<open>audioStreamToWordsStream\<close> is not in the sources): a fresh session is started,
  the windows are processed in order, and the end of the input adds the terminating
  record.
\<close>

definition runPipeline ::
  "('f, 't, 'l) lookups \<Rightarrow> 'f \<Rightarrow> decoderOptions \<Rightarrow> ('i, 'a) inferenceModule \<Rightarrow> 'i \<Rightarrow> int
     \<Rightarrow> 'a list \<Rightarrow> decodeError + outputRecord list" where
  "runPipeline lk fac opts im i0 d chunks =
     (case start lk fac newSession of
        Inl e \<Rightarrow> Inl e
      | Inr s0 \<Rightarrow>
          (case processWindows lk fac opts im d
                  \<lparr> inference = i0, decoder = s0, emitted = [], elapsed = 0 \<rparr> chunks of
             Inl e \<Rightarrow> Inl e
           | Inr (st, records) \<Rightarrow>
               (case endOfInput lk fac opts im d st of
                  Inl e \<Rightarrow> Inl e
                | Inr final \<Rightarrow> Inr (records @ [final]))))"

subsection \<open>One factory, many sessions\<close>

text \<open>
  Modelled from the spec: the objects of a process that decodes (sections 5 and 9; the
  decoder is not in the sources): a factory, shared by reference, or a session, which
  holds the handle of its factory, its options and its private state; an abandoned
  session leaves a released slot. A handle is an index into the store.
\<close>

datatype ('f, 't, 'l) object =
  FactoryObject 'f
| SessionObject nat decoderOptions "('t, 'l) session"
| Released

text \<open>
  Modelled from the spec: the operations of a session (section 4.3), opening a session
  on a factory and abandoning one (section 5); the decoder is not in the sources.
\<close>

datatype operation =
  Start
| DecodeChunk "real list list"
| CurrentBestTranscript
| Finish
| Abandon

datatype request = OpenSession nat decoderOptions | OnSession nat operation

datatype reply = Done | Opened nat | Transcript "string list" | Failed decodeError

text \<open>
  Modelled from the spec: one operation of one session on the store (sections 4.3, 5
  and 9; the decoder is not in the sources). The session reads the factory through its
  handle and writes its own slot; an operation on a handle that is not a live session
  of a factory fails fast.
\<close>

definition onSession ::
  "('f, 't, 'l) lookups \<Rightarrow> ('f, 't, 'l) object list \<Rightarrow> nat \<Rightarrow> operation
     \<Rightarrow> ('f, 't, 'l) object list \<times> reply" where
  "onSession lk store sid op =
     (if sid < length store then
        (case store ! sid of
           SessionObject fh opts s \<Rightarrow>
             (if fh < length store then
                (case store ! fh of
                   FactoryObject fac \<Rightarrow>
                     (case op of
                        Start \<Rightarrow>
                          (case start lk fac s of
                             Inl e \<Rightarrow> (store, Failed e)
                           | Inr s' \<Rightarrow> (store[sid := SessionObject fh opts s'], Done))
                      | DecodeChunk emissions \<Rightarrow>
                          (case decodeChunk lk fac opts s emissions of
                             Inl e \<Rightarrow> (store, Failed e)
                           | Inr s' \<Rightarrow> (store[sid := SessionObject fh opts s'], Done))
                      | CurrentBestTranscript \<Rightarrow> (store, Transcript (currentBestTranscript s))
                      | Finish \<Rightarrow>
                          (case finish lk fac opts s of
                             Inl e \<Rightarrow> (store, Failed e)
                           | Inr (s', transcript) \<Rightarrow>
                               (store[sid := SessionObject fh opts s'], Transcript transcript))
                      | Abandon \<Rightarrow> (store[sid := Released], Done))
                 | _ \<Rightarrow> (store, Failed DecodeStateError))
              else (store, Failed DecodeStateError))
         | _ \<Rightarrow> (store, Failed DecodeStateError))
      else (store, Failed DecodeStateError))"

definition serve ::
  "('f, 't, 'l) lookups \<Rightarrow> ('f, 't, 'l) object list \<Rightarrow> request
     \<Rightarrow> ('f, 't, 'l) object list \<times> reply" where
  "serve lk store rq =
     (case rq of
        OpenSession fh opts \<Rightarrow> (store @ [SessionObject fh opts newSession], Opened (length store))
      | OnSession sid op \<Rightarrow> onSession lk store sid op)"

text \<open>
  Modelled from the spec: any interleaving of the operations of any number of sessions
  (section 5; the decoder is not in the sources), as the list of requests in the order
  in which they take effect.
\<close>

definition serveAll ::
  "('f, 't, 'l) lookups \<Rightarrow> ('f, 't, 'l) object list \<Rightarrow> request list \<Rightarrow> ('f, 't, 'l) object list" where
  "serveAll lk store rqs = foldl (\<lambda>st rq. fst (serve lk st rq)) store rqs"

subsection \<open>The Dictionary\<close>






subsection \<open>A small decoder instance\<close>

text \<open>
  One choice of the parameters, for running the model on concrete inputs. The factory is
  its token list; token 0 is silence and every other token is a word of its own. There
  is one trie position and one language-model state, so that all candidates of a
  timestep converge. The inference module passes each chunk on as one emission.
\<close>

definition toyLookups :: "(string list, nat, nat) lookups" where
  "toyLookups =
     \<lparr> trieRoot = (\<lambda>fac. 0),
       initialState = (\<lambda>fac. 0),
       extensions = (\<lambda>fac opts emission h.
          map (\<lambda>t. (score h + emission ! t, 0, 0, if t = 0 then None else Some (fac ! t)))
              [0 ..< min (length emission) (length fac)]) \<rparr>"

definition toyInference :: "(nat, real list) inferenceModule" where
  "toyInference = \<lparr> process = (\<lambda>i chunk. (Suc i, [chunk])), flush = (\<lambda>i. []) \<rparr>"

definition toyFactory :: "string list" where
  "toyFactory = [''_'', ''uncle'']"

section \<open>Properties of main\<close>

subsection \<open>Reading lines\<close>










subsection \<open>The narrowing of the token count\<close>

lemma sint_tokenCount:
  "length tokens < 2 ^ 31 \<Longrightarrow> sint (tokenCount tokens) = int (length tokens)"
  by (simp add: tokenCount_def signed_of_nat signed_take_bit_int_eq_self)

lemma sint_tokenCount_iff:
  "sint (tokenCount tokens) = int (length tokens) \<longleftrightarrow> length tokens < 2 ^ 31"
proof
  assume "sint (tokenCount tokens) = int (length tokens)"
  moreover have "sint (tokenCount tokens) < 2 ^ 31"
    using sint_lt[of "tokenCount tokens"] by simp
  ultimately show "length tokens < 2 ^ 31" by simp
qed (rule sint_tokenCount)

subsection \<open>What a call in the run's record tells\<close>

lemma main_transcribe_call:
  assumes "AudioStreamToWordsStream input dnn fac opts n \<in> set (calls (main env fl w))"
  shows "\<exists>featureModule acousticModule tokens.
           loadFeatureModule env fl w = Inr featureModule \<and>
           loadAcousticModule env fl w = Inr acousticModule \<and>
           loadTokens env fl w = Inr tokens \<and>
           loadDecoderOptions env fl w = Inr opts \<and>
           DecoderFactory env (decoderFactoryArgs env fl) = Inr fac \<and>
           input = audioInput env fl w \<and>
           dnn = [featureModule, acousticModule] \<and>
           n = tokenCount tokens"
  using assms
  by (auto simp: main_def Let_def add_def split: sum.splits prod.splits)

lemma main_factory_call:
  assumes "NewDecoderFactory args \<in> set (calls (main env fl w))"
  shows "args = decoderFactoryArgs env fl"
  using assms
  by (auto simp: main_def Let_def add_def split: sum.splits prod.splits)

lemma main_returns:
  assumes "returned (main env fl w) = Inr r"
  shows "r = 0 \<and> (\<exists>input dnn fac opts n.
           calls (main env fl w) =
             [NewDecoderFactory (decoderFactoryArgs env fl),
              AudioStreamToWordsStream input dnn fac opts n] \<and>
           DecoderFactory env (decoderFactoryArgs env fl) = Inr fac)"
  using assms
  by (auto simp: main_def Let_def add_def split: sum.splits prod.splits option.splits)

lemma loadDecoderOptions_Inr:
  assumes "loadDecoderOptions env fl w = Inr opts"
  shows "\<exists>ar. JSONInputArchive env
                (ifstream w (GetInputFileFullPath env fl (decoder_options_file fl))) = Inr ar \<and>
      loadInt env ar ''beamSize'' = Inr (beamSize opts) \<and>
      loadInt env ar ''beamSizeToken'' = Inr (beamSizeToken opts) \<and>
      loadDouble env ar ''beamThreshold'' = Inr (beamThreshold opts) \<and>
      loadDouble env ar ''lmWeight'' = Inr (lmWeight opts) \<and>
      loadDouble env ar ''wordScore'' = Inr (wordScore opts) \<and>
      loadDouble env ar ''unkScore'' = Inr (unkScore opts) \<and>
      loadDouble env ar ''silScore'' = Inr (silScore opts) \<and>
      loadDouble env ar ''eosScore'' = Inr (eosScore opts) \<and>
      loadBool env ar ''logAdd'' = Inr (logAdd opts) \<and>
      loadEnum env ar ''criterionType'' = Inr (criterionType opts)"
  using assms unfolding loadDecoderOptions_def Let_def
  by (auto split: if_splits sum.splits)

subsection \<open>Runs of the concrete installation\<close>

lemmas example_defs =
  main_def loadFeatureModule_def loadAcousticModule_def exampleEnv_def defaultFlags_def
  exampleFiles_def ifstream_def is_open_def GetInputFileFullPath_def
  exampleFullPath_def exampleBinaryArchive_def loadTokens_def readTokens_def endl_def
  tokenCount_def showInt_def digitChar_def loadDecoderOptions_def exampleJSONArchive_def
  exampleLoad_def decoderFactoryArgs_def audioInput_def exampleTranscribe_def add_def Let_def
  exampleArgs_def exampleOptions_def

lemma example_run:
  "main exampleEnv defaultFlags exampleWorld =
     \<lparr> cout = ''Tokens loaded - 3 tokens'' @ endl @ ''RIFF'',
       calls = [NewDecoderFactory exampleArgs,
                AudioStreamToWordsStream (GoodStream ''RIFF'') [''F'', ''A'']
                  exampleArgs exampleOptions 3],
       returned = Inr 0 \<rparr>"
  by (simp add: example_defs exampleWorld_def readLines.simps showNat.simps)

lemma example_file_run:
  "main exampleEnv (defaultFlags\<lparr>input_audio_file := ''audio.wav''\<rparr>) exampleWorld =
     \<lparr> cout = ''Tokens loaded - 3 tokens'' @ endl @ ''RIFF'',
       calls = [NewDecoderFactory exampleArgs,
                AudioStreamToWordsStream (GoodStream ''RIFF'') [''F'', ''A'']
                  exampleArgs exampleOptions 3],
       returned = Inr 0 \<rparr>"
  by (simp add: example_defs exampleWorld_def readLines.simps showNat.simps)


subsection \<open>Unreadable input files\<close>

text \<open>
  The feature file, the tokens file and the options file: when the stream is not open,
  the run ends at once with a \<^verbatim>\<open>runtime_error\<close> built from that file's path, and
  no call has been made.
\<close>

lemma feature_file_unreadable:
  assumes "files w (GetInputFileFullPath env fl (feature_module_file fl)) = None"
  shows "main env fl w =
           \<lparr> cout = [], calls = [],
             returned = Inl (runtime_error (''failed to open feature file='' @
               GetInputFileFullPath env fl (feature_module_file fl) @ '' for reading'')) \<rparr>"
  using assms by (simp add: main_def loadFeatureModule_def ifstream_def is_open_def)

lemma tokens_file_unreadable:
  assumes "loadFeatureModule env fl w = Inr featureModule"
      and "loadAcousticModule env fl w = Inr acousticModule"
      and "files w (GetInputFileFullPath env fl (tokens_file fl)) = None"
  shows "main env fl w =
           \<lparr> cout = [], calls = [],
             returned = Inl (runtime_error (''failed to open tokens file='' @
               GetInputFileFullPath env fl (tokens_file fl) @ '' for reading'')) \<rparr>"
  using assms by (simp add: main_def loadTokens_def ifstream_def is_open_def)

lemma decoder_options_file_unreadable:
  assumes "loadFeatureModule env fl w = Inr featureModule"
      and "loadAcousticModule env fl w = Inr acousticModule"
      and "loadTokens env fl w = Inr tokens"
      and "files w (GetInputFileFullPath env fl (decoder_options_file fl)) = None"
  shows "calls (main env fl w) = [] \<and>
         returned (main env fl w) =
           Inl (runtime_error (''failed to open decoder options file='' @
             GetInputFileFullPath env fl (decoder_options_file fl) @ '' for reading''))"
  using assms by (simp add: main_def loadDecoderOptions_def ifstream_def is_open_def Let_def)

text \<open>
  The acoustic model file: the run ends at once as well, but the message is built from
  the feature file's path.
\<close>

lemma acoustic_file_unreadable:
  assumes "loadFeatureModule env fl w = Inr featureModule"
      and "files w (GetInputFileFullPath env fl (acoustic_module_file fl)) = None"
  shows "main env fl w =
           \<lparr> cout = [], calls = [],
             returned = Inl (runtime_error (''failed to open acoustic model file='' @
               GetInputFileFullPath env fl (feature_module_file fl) @ '' for reading'')) \<rparr>"
  using assms by (simp add: main_def loadAcousticModule_def ifstream_def is_open_def)

text \<open>
  Claim C1. Every input file that cannot be opened (feature module, acoustic model,
  tokens, decoder options) makes the program fail at load time with a message that names
  that file's path. For the acoustic model this is not what the code does: with the
  default flags, a readable \<^verbatim>\<open>./feature_extractor.bin\<close> and no
  \<^verbatim>\<open>./acoustic_model.bin\<close>, the run ends before any call, and its message names
  \<^verbatim>\<open>./feature_extractor.bin\<close>; the path that could not be opened does not occur
  in it.
\<close>

theorem acoustic_error_names_feature_file:
  "files noAcousticWorld ''./feature_extractor.bin'' = Some ''F'' \<and>
   GetInputFileFullPath exampleEnv defaultFlags (acoustic_module_file defaultFlags)
     = ''./acoustic_model.bin'' \<and>
   files noAcousticWorld ''./acoustic_model.bin'' = None \<and>
   main exampleEnv defaultFlags noAcousticWorld =
     \<lparr> cout = [], calls = [],
       returned = Inl (runtime_error
         ''failed to open acoustic model file=./feature_extractor.bin for reading'') \<rparr> \<and>
   \<not> names ''failed to open acoustic model file=./feature_extractor.bin for reading''
       ''./acoustic_model.bin''"
  by (simp add: example_defs noAcousticWorld_def)

subsection \<open>The Dictionary, the token list and the token count\<close>









subsection \<open>The decoder factory\<close>

lemma main_calls_shape:
  "calls (main env fl w) = [] \<or>
   calls (main env fl w) = [NewDecoderFactory (decoderFactoryArgs env fl)] \<or>
   (\<exists>input dnn fac opts n.
      DecoderFactory env (decoderFactoryArgs env fl) = Inr fac \<and>
      calls (main env fl w) =
        [NewDecoderFactory (decoderFactoryArgs env fl),
         AudioStreamToWordsStream input dnn fac opts n])"
  by (auto simp: main_def Let_def split: sum.splits prod.splits)

text \<open>
  Claim C5. The factory is constructed by a single call taking the seven inputs
  (tokens, lexicon, language model, transitions, smearing mode, silence token, unknown
  score override) and the smearing mode supplied is \<^verbatim>\<open>MAX\<close>; the factory is
  immutable. In a run that returns, the constructor is called exactly once, with the
  seven arguments below; the value it yields is the factory handed on to
  \<^verbatim>\<open>audioStreamToWordsStream\<close>, and nothing else is done with it. No run calls
  the constructor more than once.
\<close>

theorem decoderFactory_constructed_once:
  assumes "returned (main env fl w) = Inr r"
  shows "constructorCalls (calls (main env fl w)) =
           [\<lparr> tokensPath = GetFullPath env (tokens_file fl) (input_files_base_path fl),
              lexiconPath = GetFullPath env (lexicon_file fl) (input_files_base_path fl),
              languageModelPath =
                GetFullPath env (language_model_file fl) (input_files_base_path fl),
              transitions = [],
              smearingMode = SmearingMode_MAX,
              silenceToken = silence_token fl,
              unkScoreOverride = 0 \<rparr>] \<and>
         (\<exists>input dnn fac opts n.
            DecoderFactory env (decoderFactoryArgs env fl) = Inr fac \<and>
            calls (main env fl w) =
              [NewDecoderFactory (decoderFactoryArgs env fl),
               AudioStreamToWordsStream input dnn fac opts n]) \<and>
         (\<forall>fl' w'. length (constructorCalls (calls (main env fl' w'))) \<le> 1)"
proof -
  from main_returns[OF assms] obtain input dnn fac opts n
    where c: "calls (main env fl w) =
                [NewDecoderFactory (decoderFactoryArgs env fl),
                 AudioStreamToWordsStream input dnn fac opts n]"
      and f: "DecoderFactory env (decoderFactoryArgs env fl) = Inr fac"
    by blast
  have one: "constructorCalls (calls (main env fl w)) = [decoderFactoryArgs env fl]"
    by (simp add: c constructorCalls_def)
  have most: "length (constructorCalls (calls (main env fl' w'))) \<le> 1" for fl' w'
    using main_calls_shape[of env fl' w'] by (auto simp: constructorCalls_def)
  from one c f most show ?thesis
    by (simp add: decoderFactoryArgs_def GetInputFileFullPath_def)
qed

theorem decoderFactory_constructed_once_witness:
  "returned (main exampleEnv defaultFlags exampleWorld) = Inr 0 \<and>
   constructorCalls (calls (main exampleEnv defaultFlags exampleWorld)) =
     [\<lparr> tokensPath = ''./tokens.txt'', lexiconPath = ''./lexicon.txt'',
        languageModelPath = ''./language_model.bin'', transitions = [],
        smearingMode = SmearingMode_MAX, silenceToken = ''_'', unkScoreOverride = 0 \<rparr>]"
proof -
  have r: "returned (main exampleEnv defaultFlags exampleWorld) = Inr 0"
    by (simp add: example_run)
  have "GetFullPath exampleEnv (tokens_file defaultFlags) (input_files_base_path defaultFlags)
          = ''./tokens.txt''"
       "GetFullPath exampleEnv (lexicon_file defaultFlags) (input_files_base_path defaultFlags)
          = ''./lexicon.txt''"
       "GetFullPath exampleEnv (language_model_file defaultFlags)
          (input_files_base_path defaultFlags) = ''./language_model.bin''"
       "silence_token defaultFlags = ''_''"
    by (simp_all add: exampleEnv_def exampleFullPath_def defaultFlags_def)
  with decoderFactory_constructed_once[OF r] r show ?thesis by simp
qed

text \<open>
  Claim C9. In every run the factory is constructed with an empty transitions vector
  and an unknown-word score override of 0, whatever was loaded into the decoder
  options; the loaded \<^verbatim>\<open>unkScore\<close> is not forwarded. Whenever a run reaches the
  constructor, the options have been loaded, the two arguments are \<open>[]\<close> and \<open>0\<close>,
  and a run of the same flags in any other world (one with another options file, say)
  constructs with the same arguments.
\<close>

theorem factory_ignores_decoder_options:
  assumes "NewDecoderFactory args \<in> set (calls (main env fl w))"
  shows "transitions args = [] \<and> unkScoreOverride args = 0 \<and>
         (\<exists>opts. loadDecoderOptions env fl w = Inr opts) \<and>
         (\<forall>w' args'. NewDecoderFactory args' \<in> set (calls (main env fl w')) \<longrightarrow> args' = args)"
proof -
  from main_factory_call[OF assms] have a: "args = decoderFactoryArgs env fl" .
  have "\<exists>opts. loadDecoderOptions env fl w = Inr opts"
    using assms by (auto simp: main_def Let_def split: sum.splits prod.splits)
  moreover have "args' = args"
    if "NewDecoderFactory args' \<in> set (calls (main env fl w'))" for w' args'
    using main_factory_call[OF that] a by simp
  ultimately show ?thesis using a by (auto simp: decoderFactoryArgs_def)
qed

theorem factory_ignores_decoder_options_witness:
  "NewDecoderFactory exampleArgs \<in> set (calls (main exampleEnv defaultFlags exampleWorld)) \<and>
   loadDecoderOptions exampleEnv defaultFlags exampleWorld = Inr exampleOptions \<and>
   unkScore exampleOptions = - 7 \<and>
   transitions exampleArgs = [] \<and> unkScoreOverride exampleArgs = 0"
proof -
  have c: "NewDecoderFactory exampleArgs \<in> set (calls (main exampleEnv defaultFlags exampleWorld))"
    by (simp add: example_run)
  have "loadDecoderOptions exampleEnv defaultFlags exampleWorld = Inr exampleOptions"
    by (simp add: example_defs exampleWorld_def)
  moreover have "unkScore exampleOptions = - 7"
    by (simp add: exampleOptions_def)
  ultimately show ?thesis using factory_ignores_decoder_options[OF c] c by simp
qed

subsection \<open>The decoder options\<close>

text \<open>
  Claim C7. The configuration value the core consumes consists of exactly the ten fields
  \<^verbatim>\<open>beamSize\<close>, \<^verbatim>\<open>beamSizeToken\<close>, \<^verbatim>\<open>beamThreshold\<close>, \<^verbatim>\<open>lmWeight\<close>,
  \<^verbatim>\<open>wordScore\<close>, \<^verbatim>\<open>unkScore\<close>, \<^verbatim>\<open>silScore\<close>, \<^verbatim>\<open>eosScore\<close>,
  \<^verbatim>\<open>logAdd\<close> and \<^verbatim>\<open>criterionType\<close>, and every one of them is populated before
  any decoding begins. For every call of \<^verbatim>\<open>audioStreamToWordsStream\<close> in a run,
  the options it receives are the record of these ten fields, each holding the value the
  archive of the options file gave for the pair of that name.
\<close>

theorem decoderOptions_populated:
  assumes "AudioStreamToWordsStream input dnn fac opts n \<in> set (calls (main env fl w))"
  shows "\<exists>ar v1 v2 v3 v4 v5 v6 v7 v8 v9 v10.
      JSONInputArchive env
        (ifstream w (GetInputFileFullPath env fl (decoder_options_file fl))) = Inr ar \<and>
      loadInt env ar ''beamSize'' = Inr v1 \<and>
      loadInt env ar ''beamSizeToken'' = Inr v2 \<and>
      loadDouble env ar ''beamThreshold'' = Inr v3 \<and>
      loadDouble env ar ''lmWeight'' = Inr v4 \<and>
      loadDouble env ar ''wordScore'' = Inr v5 \<and>
      loadDouble env ar ''unkScore'' = Inr v6 \<and>
      loadDouble env ar ''silScore'' = Inr v7 \<and>
      loadDouble env ar ''eosScore'' = Inr v8 \<and>
      loadBool env ar ''logAdd'' = Inr v9 \<and>
      loadEnum env ar ''criterionType'' = Inr v10 \<and>
      opts = \<lparr> beamSize = v1, beamSizeToken = v2, beamThreshold = v3, lmWeight = v4,
               wordScore = v5, unkScore = v6, silScore = v7, eosScore = v8,
               logAdd = v9, criterionType = v10 \<rparr>"
proof -
  from main_transcribe_call[OF assms] have "loadDecoderOptions env fl w = Inr opts"
    by blast
  from loadDecoderOptions_Inr[OF this] obtain ar where
    "JSONInputArchive env
       (ifstream w (GetInputFileFullPath env fl (decoder_options_file fl))) = Inr ar"
    "loadInt env ar ''beamSize'' = Inr (beamSize opts)"
    "loadInt env ar ''beamSizeToken'' = Inr (beamSizeToken opts)"
    "loadDouble env ar ''beamThreshold'' = Inr (beamThreshold opts)"
    "loadDouble env ar ''lmWeight'' = Inr (lmWeight opts)"
    "loadDouble env ar ''wordScore'' = Inr (wordScore opts)"
    "loadDouble env ar ''unkScore'' = Inr (unkScore opts)"
    "loadDouble env ar ''silScore'' = Inr (silScore opts)"
    "loadDouble env ar ''eosScore'' = Inr (eosScore opts)"
    "loadBool env ar ''logAdd'' = Inr (logAdd opts)"
    "loadEnum env ar ''criterionType'' = Inr (criterionType opts)"
    by blast
  moreover have "opts = \<lparr> beamSize = beamSize opts, beamSizeToken = beamSizeToken opts,
      beamThreshold = beamThreshold opts, lmWeight = lmWeight opts,
      wordScore = wordScore opts, unkScore = unkScore opts, silScore = silScore opts,
      eosScore = eosScore opts, logAdd = logAdd opts, criterionType = criterionType opts \<rparr>"
    by simp
  ultimately show ?thesis by blast
qed

theorem decoderOptions_populated_witness:
  "AudioStreamToWordsStream (GoodStream ''RIFF'') [''F'', ''A''] exampleArgs exampleOptions 3
     \<in> set (calls (main exampleEnv defaultFlags exampleWorld)) \<and>
   (\<exists>ar. JSONInputArchive exampleEnv
            (ifstream exampleWorld
               (GetInputFileFullPath exampleEnv defaultFlags (decoder_options_file defaultFlags)))
          = Inr ar \<and>
         loadInt exampleEnv ar ''beamSize'' = Inr 10 \<and>
         loadDouble exampleEnv ar ''unkScore'' = Inr (- 7) \<and>
         loadBool exampleEnv ar ''logAdd'' = Inr False)"
proof -
  have c: "AudioStreamToWordsStream (GoodStream ''RIFF'') [''F'', ''A''] exampleArgs exampleOptions 3
             \<in> set (calls (main exampleEnv defaultFlags exampleWorld))"
    by (simp add: example_run)
  from decoderOptions_populated[OF c] obtain ar v1 v2 v3 v4 v5 v6 v7 v8 v9 v10 where
    ar: "JSONInputArchive exampleEnv
       (ifstream exampleWorld
          (GetInputFileFullPath exampleEnv defaultFlags (decoder_options_file defaultFlags)))
     = Inr ar"
    and l: "loadInt exampleEnv ar ''beamSize'' = Inr v1"
           "loadDouble exampleEnv ar ''unkScore'' = Inr v6"
           "loadBool exampleEnv ar ''logAdd'' = Inr v9"
    and o: "exampleOptions = \<lparr> beamSize = v1, beamSizeToken = v2, beamThreshold = v3,
               lmWeight = v4, wordScore = v5, unkScore = v6, silScore = v7, eosScore = v8,
               logAdd = v9, criterionType = v10 \<rparr>"
    by blast
  from o have "v1 = 10" "v6 = - 7" "v9 = False"
    by (simp_all add: exampleOptions_def)
  with ar l c show ?thesis by blast
qed

subsection \<open>Standard input and a named audio file\<close>

text \<open>
  Claim C10. With an empty \<^verbatim>\<open>input_audio_file\<close> the audio is read from standard
  input, otherwise from the named file; both paths call the same transcription function
  with the same network, factory, options and token count, so on the same audio bytes
  they produce the same output. In every run, the stream handed to
  \<^verbatim>\<open>audioStreamToWordsStream\<close> is standard input when the flag is empty and the
  stream opened on the named file when it is not, whatever the other source holds. A
  run that reads the audio bytes from standard input and a run that reads the same
  bytes from a named file, on the same files and with anything at all on the second
  run's standard input, make the same calls with the same arguments, write the same
  text (that of \<^verbatim>\<open>main\<close> and of the transcription; the timing reporters, which are
  given a name that tells the source, are not modelled) and return the same value.
\<close>

theorem stdin_and_file_runs_agree:
  assumes "input_audio_file fl \<noteq> []"
      and "files w2 (GetFullPath env (input_audio_file fl) (input_files_base_path fl)) = Some audio"
      and "stdin w1 = audio"
      and "files w1 = files w2"
  shows "(\<forall>fl' w' input dnn fac opts n.
            AudioStreamToWordsStream input dnn fac opts n \<in> set (calls (main env fl' w')) \<longrightarrow>
            input = (if input_audio_file fl' = [] then GoodStream (stdin w')
                     else (case files w'
                                  (GetFullPath env (input_audio_file fl')
                                     (input_files_base_path fl')) of
                             None \<Rightarrow> FailedStream
                           | Some bytes \<Rightarrow> GoodStream bytes))) \<and>
         (\<forall>input dnn fac opts n.
            AudioStreamToWordsStream input dnn fac opts n \<in> set (calls (main env fl w2)) \<longrightarrow>
            input = GoodStream audio) \<and>
         (\<forall>input dnn fac opts n.
            AudioStreamToWordsStream input dnn fac opts n
              \<in> set (calls (main env (fl\<lparr>input_audio_file := []\<rparr>) w1)) \<longrightarrow>
            input = GoodStream audio) \<and>
         main env (fl\<lparr>input_audio_file := []\<rparr>) w1 = main env fl w2"
proof -
  have pin: "input = (if input_audio_file fl' = [] then GoodStream (stdin w')
                      else (case files w'
                                   (GetFullPath env (input_audio_file fl')
                                      (input_files_base_path fl')) of
                              None \<Rightarrow> FailedStream
                            | Some bytes \<Rightarrow> GoodStream bytes))"
    if "AudioStreamToWordsStream input dnn fac opts n \<in> set (calls (main env fl' w'))"
    for fl' w' input dnn fac opts n
    using main_transcribe_call[OF that]
    by (auto simp: audioInput_def ifstream_def GetInputFileFullPath_def)
  have fromFile: "input = GoodStream audio"
    if "AudioStreamToWordsStream input dnn fac opts n \<in> set (calls (main env fl w2))"
    for input dnn fac opts n
    using pin[OF that] assms(1,2) by simp
  have fromStdin: "input = GoodStream audio"
    if "AudioStreamToWordsStream input dnn fac opts n
          \<in> set (calls (main env (fl\<lparr>input_audio_file := []\<rparr>) w1))"
    for input dnn fac opts n
    using pin[OF that] assms(3) by simp
  have same: "audioInput env (fl\<lparr>input_audio_file := []\<rparr>) w1 = audioInput env fl w2"
    using assms(1,2,3) by (simp add: audioInput_def ifstream_def GetInputFileFullPath_def)
  have p: "GetInputFileFullPath env (fl\<lparr>input_audio_file := []\<rparr>) = GetInputFileFullPath env fl"
    by (rule ext) (simp add: GetInputFileFullPath_def)
  have stages:
    "loadFeatureModule env (fl\<lparr>input_audio_file := []\<rparr>) w1 = loadFeatureModule env fl w2"
    "loadAcousticModule env (fl\<lparr>input_audio_file := []\<rparr>) w1 = loadAcousticModule env fl w2"
    "loadTokens env (fl\<lparr>input_audio_file := []\<rparr>) w1 = loadTokens env fl w2"
    "loadDecoderOptions env (fl\<lparr>input_audio_file := []\<rparr>) w1 = loadDecoderOptions env fl w2"
    "decoderFactoryArgs env (fl\<lparr>input_audio_file := []\<rparr>) = decoderFactoryArgs env fl"
    by (simp_all add: loadFeatureModule_def loadAcousticModule_def loadTokens_def
        loadDecoderOptions_def decoderFactoryArgs_def ifstream_def p Let_def assms(4))
  have "main env (fl\<lparr>input_audio_file := []\<rparr>) w1 = main env fl w2"
    unfolding main_def same stages ..
  with pin fromFile fromStdin show ?thesis by blast
qed

theorem stdin_and_file_runs_agree_witness:
  "input_audio_file (defaultFlags\<lparr>input_audio_file := ''audio.wav''\<rparr>) \<noteq> [] \<and>
   files (exampleWorld\<lparr>stdin := ''something else''\<rparr>) ''./audio.wav'' = Some ''RIFF'' \<and>
   stdin exampleWorld = ''RIFF'' \<and>
   files exampleWorld = files (exampleWorld\<lparr>stdin := ''something else''\<rparr>) \<and>
   calls (main exampleEnv (defaultFlags\<lparr>input_audio_file := ''audio.wav''\<rparr>)
            (exampleWorld\<lparr>stdin := ''something else''\<rparr>))
     = [NewDecoderFactory exampleArgs,
        AudioStreamToWordsStream (GoodStream ''RIFF'') [''F'', ''A''] exampleArgs exampleOptions 3] \<and>
   main exampleEnv defaultFlags exampleWorld =
     main exampleEnv (defaultFlags\<lparr>input_audio_file := ''audio.wav''\<rparr>)
       (exampleWorld\<lparr>stdin := ''something else''\<rparr>) \<and>
   cout (main exampleEnv defaultFlags exampleWorld) = ''Tokens loaded - 3 tokens'' @ endl @ ''RIFF''"
proof -
  let ?fl = "defaultFlags\<lparr>input_audio_file := ''audio.wav''\<rparr>"
  let ?w2 = "exampleWorld\<lparr>stdin := ''something else''\<rparr>"
  have 1: "input_audio_file ?fl \<noteq> []" by simp
  have p: "GetFullPath exampleEnv (input_audio_file ?fl) (input_files_base_path ?fl)
             = ''./audio.wav''"
    by (simp add: exampleEnv_def exampleFullPath_def defaultFlags_def)
  have f: "files ?w2 ''./audio.wav'' = Some ''RIFF''"
    by (simp add: exampleWorld_def exampleFiles_def)
  have 3: "stdin exampleWorld = ''RIFF''" by (simp add: exampleWorld_def)
  have 4: "files exampleWorld = files ?w2" by simp
  have e: "?fl\<lparr>input_audio_file := []\<rparr> = defaultFlags" by (simp add: defaultFlags_def)
  from stdin_and_file_runs_agree[OF 1 f[folded p] 3 4]
  have eq: "main exampleEnv defaultFlags exampleWorld = main exampleEnv ?fl ?w2"
    unfolding e by blast
  have r: "main exampleEnv defaultFlags exampleWorld =
     \<lparr> cout = ''Tokens loaded - 3 tokens'' @ endl @ ''RIFF'',
       calls = [NewDecoderFactory exampleArgs,
                AudioStreamToWordsStream (GoodStream ''RIFF'') [''F'', ''A'']
                  exampleArgs exampleOptions 3],
       returned = Inr 0 \<rparr>"
    by (rule example_run)
  have c: "calls (main exampleEnv ?fl ?w2)
             = [NewDecoderFactory exampleArgs,
                AudioStreamToWordsStream (GoodStream ''RIFF'') [''F'', ''A'']
                  exampleArgs exampleOptions 3]"
    unfolding eq[symmetric] r by simp
  have o: "cout (main exampleEnv defaultFlags exampleWorld)
             = ''Tokens loaded - 3 tokens'' @ endl @ ''RIFF''"
    unfolding r by simp
  show ?thesis
    by (intro conjI) (rule 1 f 3 4 c eq o)+
qed


section \<open>Properties of the modelled decoder and pipeline\<close>

subsection \<open>The merge law\<close>

lemma stable_log_sum_exp:
  "max a b + ln (1 + exp (min a b - max a b)) = ln (exp a + exp b)" for a b :: real
proof -
  have le: "y + ln (1 + exp (x - y)) = ln (exp x + exp y)" for x y :: real
  proof -
    have "ln (exp x + exp y) = ln (exp y * (1 + exp (x - y)))"
      by (simp add: exp_diff distrib_left add.commute)
    also have "\<dots> = ln (exp y) + ln (1 + exp (x - y))"
      by (rule ln_mult_pos) (simp_all add: add_pos_pos)
    finally show ?thesis by simp
  qed
  show ?thesis
  proof (cases "a \<le> b")
    case True
    then show ?thesis using le[where x = a and y = b] by (simp add: max_def min_def)
  next
    case False
    then show ?thesis using le[where x = b and y = a] by (simp add: max_def min_def add.commute)
  qed
qed

lemma mergeScores_eq:
  "mergeScores la a b = (if la then ln (exp a + exp b) else max a b)"
  by (simp add: mergeScores_def stable_log_sum_exp)

lemma filter_mergeInto:
  "filter (\<lambda>h. triePos h = pos \<and> lmState h = st) (mergeInto la c hs) =
     (if triePos c = pos \<and> lmState c = st
      then mergeInto la c (filter (\<lambda>h. triePos h = pos \<and> lmState h = st) hs)
      else filter (\<lambda>h. triePos h = pos \<and> lmState h = st) hs)"
  by (induction hs) (auto simp: sameState_def mergeStates_def)

lemma filter_foldl_mergeInto:
  "filter (\<lambda>h. triePos h = pos \<and> lmState h = st) (foldl (\<lambda>merged c. mergeInto la c merged) acc cs) =
   foldl (\<lambda>merged c. mergeInto la c merged)
     (filter (\<lambda>h. triePos h = pos \<and> lmState h = st) acc)
     (filter (\<lambda>c. triePos c = pos \<and> lmState c = st) cs)"
  by (induction cs arbitrary: acc) (simp_all add: filter_mergeInto)

lemma filter_mergeCandidates:
  "filter (\<lambda>h. triePos h = pos \<and> lmState h = st) (mergeCandidates la cs) =
   mergeCandidates la (filter (\<lambda>c. triePos c = pos \<and> lmState c = st) cs)"
  by (simp add: mergeCandidates_def filter_foldl_mergeInto)

text \<open>
  Claim C2. For two hypotheses that converge to the same (trie position, LM state)
  during \<^verbatim>\<open>decodeChunk\<close>, the merged hypothesis's score is the log-sum-exp of the
  two scores when \<^verbatim>\<open>logAdd\<close> is true, and their maximum when it is false. In a
  timestep whose candidates hold exactly two, \<open>c1\<close> and \<open>c2\<close>, for a search state,
  the merged candidates hold exactly one hypothesis for that state, with that score.
\<close>

theorem merge_law:
  assumes "filter (\<lambda>c. triePos c = pos \<and> lmState c = st) (candidates lk fac opts s emission)
             = [c1, c2]"
  shows "\<exists>m. filter (\<lambda>h. triePos h = pos \<and> lmState h = st)
                (mergeCandidates (logAdd opts) (candidates lk fac opts s emission)) = [m] \<and>
             score m = (if logAdd opts then ln (exp (score c1) + exp (score c2))
                        else max (score c1) (score c2))"
proof -
  have "c1 \<in> set (filter (\<lambda>c. triePos c = pos \<and> lmState c = st)
                    (candidates lk fac opts s emission))"
       "c2 \<in> set (filter (\<lambda>c. triePos c = pos \<and> lmState c = st)
                    (candidates lk fac opts s emission))"
    unfolding assms by simp_all
  then have same: "sameState c1 c2"
    by (simp add: sameState_def)
  have "filter (\<lambda>h. triePos h = pos \<and> lmState h = st)
          (mergeCandidates (logAdd opts) (candidates lk fac opts s emission))
        = mergeCandidates (logAdd opts) [c1, c2]"
    by (simp add: filter_mergeCandidates assms)
  also have "\<dots> = [mergeStates (logAdd opts) c1 c2]"
    using same by (simp add: mergeCandidates_def)
  finally show ?thesis
    by (simp add: mergeStates_def mergeScores_eq)
qed

theorem merge_law_witness:
  "filter (\<lambda>c. triePos c = 0 \<and> lmState c = 0)
     (candidates toyLookups toyFactory (exampleOptions\<lparr>logAdd := True\<rparr>)
        \<lparr> phase = Decoding, arena = [emptyHypothesis toyLookups toyFactory], beam = [0] \<rparr>
        [0, - 3])
   = [\<lparr> score = 0, triePos = 0, lmState = 0, parent = Some 0, word = None \<rparr>,
      \<lparr> score = - 3, triePos = 0, lmState = 0, parent = Some 0, word = Some ''uncle'' \<rparr>] \<and>
   (\<exists>m. filter (\<lambda>h. triePos h = 0 \<and> lmState h = 0)
          (mergeCandidates True
             (candidates toyLookups toyFactory (exampleOptions\<lparr>logAdd := True\<rparr>)
                \<lparr> phase = Decoding, arena = [emptyHypothesis toyLookups toyFactory], beam = [0] \<rparr>
                [0, - 3])) = [m] \<and>
        score m = ln (1 + exp (- 3))) \<and>
   (\<exists>m. filter (\<lambda>h. triePos h = 0 \<and> lmState h = 0)
          (mergeCandidates False
             (candidates toyLookups toyFactory exampleOptions
                \<lparr> phase = Decoding, arena = [emptyHypothesis toyLookups toyFactory], beam = [0] \<rparr>
                [0, - 3])) = [m] \<and>
        score m = 0)"
proof -
  let ?on = "exampleOptions\<lparr>logAdd := True\<rparr>"
  let ?s = "\<lparr> phase = Decoding, arena = [emptyHypothesis toyLookups toyFactory], beam = [0] \<rparr>"
  have c: "filter (\<lambda>c. triePos c = 0 \<and> lmState c = 0)
             (candidates toyLookups toyFactory opts ?s [0, - 3])
           = [\<lparr> score = 0, triePos = 0, lmState = 0, parent = Some 0, word = None \<rparr>,
              \<lparr> score = - 3, triePos = 0, lmState = 0, parent = Some 0, word = Some ''uncle'' \<rparr>]"
    for opts
    by (simp add: candidates_def toyLookups_def toyFactory_def emptyHypothesis_def upt_rec)
  have off: "logAdd exampleOptions = False" by (simp add: exampleOptions_def)
  from merge_law[OF c[of ?on]] merge_law[OF c[of exampleOptions]] c[of ?on] off
  show ?thesis by simp
qed

subsection \<open>One record per window\<close>

lemma phase_decodeStep: "phase (decodeStep lk fac opts s e) = phase s"
  by (simp add: decodeStep_def Let_def)

lemma phase_decodeSteps: "phase (foldl (decodeStep lk fac opts) s es) = phase s"
  by (induction es arbitrary: s) (simp_all add: phase_decodeStep)

lemma decodeChunk_Decoding:
  "phase s = Decoding \<Longrightarrow>
     \<exists>s'. decodeChunk lk fac opts s es = Inr s' \<and> phase s' = Decoding"
  by (simp add: decodeChunk_def phase_decodeSteps)

lemma processWindow_Decoding:
  assumes "phase (decoder st) = Decoding"
  shows "\<exists>st' r. processWindow lk fac opts im d st chunk = Inr (st', r) \<and>
           phase (decoder st') = Decoding \<and> elapsed st' = Suc (elapsed st) \<and>
           startMs r = int (elapsed st) * d \<and> endMs r = (int (elapsed st) + 1) * d"
proof -
  obtain i' es where p: "process im (inference st) chunk = (i', es)"
    by (cases "process im (inference st) chunk")
  from decodeChunk_Decoding[OF assms, of lk fac opts es] obtain s'
    where "decodeChunk lk fac opts (decoder st) es = Inr s'" "phase s' = Decoding"
    by blast
  with p show ?thesis by (simp add: processWindow_def Let_def)
qed

lemma processWindows_Decoding:
  assumes "phase (decoder st) = Decoding"
  shows "\<exists>st' rs. processWindows lk fac opts im d st chunks = Inr (st', rs) \<and>
           phase (decoder st') = Decoding \<and> elapsed st' = elapsed st + length chunks \<and>
           length rs = length chunks \<and>
           (\<forall>k < length chunks.
              startMs (rs ! k) = int (elapsed st + k) * d \<and>
              endMs (rs ! k) = (int (elapsed st + k) + 1) * d)"
  using assms
proof (induction chunks arbitrary: st)
  case Nil
  then show ?case by simp
next
  case (Cons chunk chunks)
  from processWindow_Decoding[OF Cons.prems, of lk fac opts im d chunk] obtain st1 r
    where w: "processWindow lk fac opts im d st chunk = Inr (st1, r)"
      and ph: "phase (decoder st1) = Decoding"
      and el: "elapsed st1 = Suc (elapsed st)"
      and r: "startMs r = int (elapsed st) * d" "endMs r = (int (elapsed st) + 1) * d"
    by blast
  from Cons.IH[OF ph] obtain st2 rs
    where ws: "processWindows lk fac opts im d st1 chunks = Inr (st2, rs)"
      and ph2: "phase (decoder st2) = Decoding"
      and el2: "elapsed st2 = elapsed st1 + length chunks"
      and len: "length rs = length chunks"
      and rs: "\<forall>k < length chunks.
                 startMs (rs ! k) = int (elapsed st1 + k) * d \<and>
                 endMs (rs ! k) = (int (elapsed st1 + k) + 1) * d"
    by blast
  have "startMs ((r # rs) ! k) = int (elapsed st + k) * d \<and>
        endMs ((r # rs) ! k) = (int (elapsed st + k) + 1) * d"
    if "k < length (chunk # chunks)" for k
  proof (cases k)
    case 0
    with r show ?thesis by simp
  next
    case (Suc j)
    with that rs el show ?thesis by simp
  qed
  with w ws ph2 el2 el len show ?case by simp
qed

lemma finish_Decoding:
  "phase s = Decoding \<Longrightarrow> \<exists>s' t. finish lk fac opts s = Inr (s', t)"
  by (simp add: finish_def Let_def)

text \<open>
  Claim C3. For every processed input window the streaming pipeline emits exactly one
  output record \<^verbatim>\<open>{startMs, endMs, text}\<close>, whose text may be empty. The pipeline
  runs to its end on every list of windows, whatever the inference module and the
  lookups yield; what it produces is one record for each window, in order, the
  \<open>k\<close>-th spanning the \<open>k\<close>-th window, followed by the terminating record.
\<close>

theorem one_record_per_window:
  "\<exists>records final.
     runPipeline lk fac opts im i0 d chunks = Inr (records @ [final]) \<and>
     length records = length chunks \<and>
     (\<forall>k < length chunks.
        startMs (records ! k) = int k * d \<and> endMs (records ! k) = (int k + 1) * d)"
proof -
  let ?st0 = "\<lparr> inference = i0,
                decoder = \<lparr> phase = Decoding, arena = [emptyHypothesis lk fac], beam = [0] \<rparr>,
                emitted = [], elapsed = 0 \<rparr>"
  have s0: "start lk fac newSession =
              Inr \<lparr> phase = Decoding, arena = [emptyHypothesis lk fac], beam = [0] \<rparr>"
    by (simp add: start_def newSession_def)
  have "phase (decoder ?st0) = Decoding" by simp
  from processWindows_Decoding[OF this, of lk fac opts im d chunks] obtain st rs
    where ws: "processWindows lk fac opts im d ?st0 chunks = Inr (st, rs)"
      and ph: "phase (decoder st) = Decoding"
      and len: "length rs = length chunks"
      and rs: "\<forall>k < length chunks.
                 startMs (rs ! k) = int k * d \<and> endMs (rs ! k) = (int k + 1) * d"
    by auto
  from decodeChunk_Decoding[OF ph, of lk fac opts "flush im (inference st)"] obtain s'
    where dc: "decodeChunk lk fac opts (decoder st) (flush im (inference st)) = Inr s'"
      and ph': "phase s' = Decoding"
    by blast
  from finish_Decoding[OF ph', of lk fac opts] obtain s'' t
    where "finish lk fac opts s' = Inr (s'', t)"
    by blast
  with dc obtain final where "endOfInput lk fac opts im d st = Inr final"
    by (simp add: endOfInput_def)
  with s0 ws have "runPipeline lk fac opts im i0 d chunks = Inr (rs @ [final])"
    by (simp add: runPipeline_def)
  with len rs show ?thesis by blast
qed

lemmas toy_defs =
  runPipeline_def start_def newSession_def processWindow_def endOfInput_def
  decodeChunk_def decodeStep_def candidates_def mergeCandidates_def mergeStates_def
  mergeScores_def sameState_def retainPerParent_def rank_def pruneBeam_def
  emptyHypothesis_def finish_def currentBestTranscript_def newSpan_def toyLookups_def
  toyInference_def toyFactory_def exampleOptions_def Let_def history.simps upt_rec

lemma toy_run:
  "runPipeline toyLookups toyFactory exampleOptions toyInference 0 500
     [[0, - 10], [0, - 10], [- 10, 0]]
   = Inr [\<lparr> startMs = 0, endMs = 500, spanText = '''' \<rparr>,
          \<lparr> startMs = 500, endMs = 1000, spanText = '''' \<rparr>,
          \<lparr> startMs = 1000, endMs = 1500, spanText = ''uncle'' \<rparr>,
          \<lparr> startMs = 1500, endMs = 1500, spanText = '''' \<rparr>]"
  by (simp add: toy_defs)

theorem one_record_per_window_witness:
  "\<exists>records final.
     runPipeline toyLookups toyFactory exampleOptions toyInference 0 500
       [[0, - 10], [0, - 10], [- 10, 0]] = Inr (records @ [final]) \<and>
     length records = 3 \<and>
     records = [\<lparr> startMs = 0, endMs = 500, spanText = '''' \<rparr>,
                \<lparr> startMs = 500, endMs = 1000, spanText = '''' \<rparr>,
                \<lparr> startMs = 1000, endMs = 1500, spanText = ''uncle'' \<rparr>] \<and>
     final = \<lparr> startMs = 1500, endMs = 1500, spanText = '''' \<rparr>"
proof -
  from one_record_per_window[of toyLookups toyFactory exampleOptions toyInference 0 500
         "[[0, - 10], [0, - 10], [- 10, 0]]"]
  obtain records final where
    run: "runPipeline toyLookups toyFactory exampleOptions toyInference 0 500
            [[0, - 10], [0, - 10], [- 10, 0]] = Inr (records @ [final])"
    and len: "length records = 3"
    by auto
  from run have "records @ [final] =
      [\<lparr> startMs = 0, endMs = 500, spanText = '''' \<rparr>,
       \<lparr> startMs = 500, endMs = 1000, spanText = '''' \<rparr>,
       \<lparr> startMs = 1000, endMs = 1500, spanText = ''uncle'' \<rparr>]
      @ [\<lparr> startMs = 1500, endMs = 1500, spanText = '''' \<rparr>]"
    by (simp add: toy_run)
  then have "records = [\<lparr> startMs = 0, endMs = 500, spanText = '''' \<rparr>,
                        \<lparr> startMs = 500, endMs = 1000, spanText = '''' \<rparr>,
                        \<lparr> startMs = 1000, endMs = 1500, spanText = ''uncle'' \<rparr>]"
            "final = \<lparr> startMs = 1500, endMs = 1500, spanText = '''' \<rparr>"
    by (simp_all only: append1_eq_conv)
  with run len show ?thesis by blast
qed

subsection \<open>The factory is only read\<close>

lemma onSession_keeps_factory:
  assumes "a < length store" and "store ! a = FactoryObject fac"
  shows "length (fst (onSession lk store sid op)) = length store \<and>
         fst (onSession lk store sid op) ! a = FactoryObject fac"
proof (cases "sid = a")
  case True
  with assms show ?thesis by (simp add: onSession_def)
next
  case False
  with assms show ?thesis
    by (auto simp: onSession_def split: object.splits operation.splits sum.splits prod.splits)
qed

lemma serve_keeps_factory:
  assumes "a < length store" and "store ! a = FactoryObject fac"
  shows "a < length (fst (serve lk store rq)) \<and>
         fst (serve lk store rq) ! a = FactoryObject fac"
proof (cases rq)
  case (OpenSession fh opts)
  with assms show ?thesis by (simp add: serve_def nth_append)
next
  case (OnSession sid op)
  with onSession_keeps_factory[OF assms, of lk sid op] assms show ?thesis
    by (simp add: serve_def)
qed

text \<open>
  Claim C6. After construction the factory is never mutated: every session reaches it
  only through a read-only, shared handle, so every operation of every session leaves
  the factory's state unchanged. Whatever requests are served, in whatever
  interleaving of sessions, every factory of the store is afterwards the object it was,
  at the same handle.
\<close>

theorem factory_never_mutated:
  assumes "a < length store" and "store ! a = FactoryObject fac"
  shows "a < length (serveAll lk store rqs) \<and> serveAll lk store rqs ! a = FactoryObject fac"
  using assms
proof (induction rqs arbitrary: store)
  case Nil
  then show ?case by (simp add: serveAll_def)
next
  case (Cons rq rqs)
  from serve_keeps_factory[OF Cons.prems, of lk rq]
  have "a < length (fst (serve lk store rq))"
       "fst (serve lk store rq) ! a = FactoryObject fac"
    by simp_all
  from Cons.IH[OF this] show ?case by (simp add: serveAll_def)
qed

theorem factory_never_mutated_witness:
  "0 < length [FactoryObject toyFactory :: (string list, nat, nat) object] \<and>
   [FactoryObject toyFactory :: (string list, nat, nat) object] ! 0 = FactoryObject toyFactory \<and>
   serveAll toyLookups [FactoryObject toyFactory]
     [OpenSession 0 exampleOptions, OpenSession 0 exampleOptions,
      OnSession 1 Start, OnSession 2 Start,
      OnSession 1 (DecodeChunk [[- 10, 0]]), OnSession 2 Finish,
      OnSession 2 (DecodeChunk [[0, 0]]), OnSession 1 Abandon] ! 0
   = FactoryObject toyFactory \<and>
   serveAll toyLookups [FactoryObject toyFactory]
     [OpenSession 0 exampleOptions, OpenSession 0 exampleOptions,
      OnSession 1 Start, OnSession 2 Start,
      OnSession 1 (DecodeChunk [[- 10, 0]]), OnSession 2 Finish,
      OnSession 2 (DecodeChunk [[0, 0]]), OnSession 1 Abandon]
   = [FactoryObject toyFactory, Released,
      SessionObject 0 exampleOptions
        \<lparr> phase = Finalized, arena = [emptyHypothesis toyLookups toyFactory], beam = [0] \<rparr>]"
proof -
  let ?store = "[FactoryObject toyFactory :: (string list, nat, nat) object]"
  have 1: "0 < length ?store" by simp
  have 2: "?store ! 0 = FactoryObject toyFactory" by simp
  have "serveAll toyLookups ?store
     [OpenSession 0 exampleOptions, OpenSession 0 exampleOptions,
      OnSession 1 Start, OnSession 2 Start,
      OnSession 1 (DecodeChunk [[- 10, 0]]), OnSession 2 Finish,
      OnSession 2 (DecodeChunk [[0, 0]]), OnSession 1 Abandon]
   = [FactoryObject toyFactory, Released,
      SessionObject 0 exampleOptions
        \<lparr> phase = Finalized, arena = [emptyHypothesis toyLookups toyFactory], beam = [0] \<rparr>]"
    by (simp add: serveAll_def serve_def onSession_def toy_defs)
  with factory_never_mutated[OF 1 2] show ?thesis by simp
qed


end
